theory Spec2Isabelle
  imports Main
begin

section \<open>Python values and exceptions\<close>

text \<open>
  The library iplib3 (module \<open>iplib3/address.py\<close>) is dynamically typed.  The values that
  reach its functions are modelled by \<open>pyval\<close>: \<open>None\<close>, an integer (unbounded, so
  \<open>int\<close>), a string, or any other object, which is neither an \<open>int\<close> nor a \<open>str\<close>.
  Python's \<open>bool\<close> is a subclass of \<open>int\<close>; \<open>False\<close> and \<open>True\<close> are the integers
  0 and 1 here.  A string is a list of characters with code points below 256.

  An exception is a value: a function that can raise returns \<open>exn + 'a\<close>, with \<open>Inl\<close>
  the exception raised.
\<close>

datatype exn = ValueError | TypeError | IndexError | AttributeError

datatype pyval = PyNone | PyInt int | PyStr string | PyOther

section \<open>Constants\<close>

definition PORT_NUMBER_MIN_VALUE :: int where
  \<comment> \<open>Modelled from the spec: \<open>iplib3/constants/port.py\<close> is not among the sources; ports range over \<open>[0,65535]\<close>.\<close>
  "PORT_NUMBER_MIN_VALUE = 0"

definition PORT_NUMBER_MAX_VALUE :: int where
  \<comment> \<open>Modelled from the spec: \<open>iplib3/constants/port.py\<close> is not among the sources; ports range over \<open>[0,65535]\<close>.\<close>
  "PORT_NUMBER_MAX_VALUE = 65535"

definition IPV4_LOCALHOST :: int where
  \<comment> \<open>Modelled from the spec: \<open>iplib3/constants/address.py\<close> is not among the sources; the IPv4 loopback integer, 127.0.0.1.\<close>
  "IPV4_LOCALHOST = 0x7F000001"

definition IPV6_LOCALHOST :: int where
  \<comment> \<open>Modelled from the spec: \<open>iplib3/constants/address.py\<close> is not among the sources; the IPv6 loopback integer, ::1.\<close>
  "IPV6_LOCALHOST = 1"

definition IPV4_MAX_SEGMENT_COUNT :: nat where
  \<comment> \<open>Modelled from the spec: \<open>iplib3/constants/ipv4.py\<close> is not among the sources; 4 dotted segments.\<close>
  "IPV4_MAX_SEGMENT_COUNT = 4"

definition IPV4_MIN_SEGMENT_VALUE :: int where
  \<comment> \<open>Modelled from the spec: \<open>iplib3/constants/ipv4.py\<close> is not among the sources; segments range over \<open>[0,255]\<close>.\<close>
  "IPV4_MIN_SEGMENT_VALUE = 0"

definition IPV4_MAX_SEGMENT_VALUE :: int where
  \<comment> \<open>Modelled from the spec: \<open>iplib3/constants/ipv4.py\<close> is not among the sources; segments range over \<open>[0,255]\<close>.\<close>
  "IPV4_MAX_SEGMENT_VALUE = 255"

definition IPV4_MIN_VALUE :: int where
  \<comment> \<open>Modelled from the spec: \<open>iplib3/constants/ipv4.py\<close> is not among the sources; IPv4 integers range over \<open>[0, 2^32-1]\<close>.\<close>
  "IPV4_MIN_VALUE = 0"

definition IPV4_MAX_VALUE :: int where
  \<comment> \<open>Modelled from the spec: \<open>iplib3/constants/ipv4.py\<close> is not among the sources; IPv4 integers range over \<open>[0, 2^32-1]\<close>.\<close>
  "IPV4_MAX_VALUE = 2 ^ 32 - 1"

definition IPV6_NUMBER_BIT_COUNT :: nat where
  \<comment> \<open>Modelled from the spec: \<open>iplib3/constants/ipv6.py\<close> is not among the sources; a hexadecimal digit holds 4 bits, so that a hextet is padded to \<open>16 div 4 = 4\<close> digits.\<close>
  "IPV6_NUMBER_BIT_COUNT = 4"

definition IPV6_SEGMENT_BIT_COUNT :: nat where
  \<comment> \<open>Modelled from the spec: \<open>iplib3/constants/ipv6.py\<close> is not among the sources; a hextet holds 16 bits and is parsed in base 16.\<close>
  "IPV6_SEGMENT_BIT_COUNT = 16"

definition IPV6_MIN_SEGMENT_COUNT :: nat where
  \<comment> \<open>Modelled from the spec: \<open>iplib3/constants/ipv6.py\<close> is not among the sources; a zero run that starts at the very first segment (index 0) is an edge.\<close>
  "IPV6_MIN_SEGMENT_COUNT = 0"

definition IPV6_MAX_SEGMENT_COUNT :: nat where
  \<comment> \<open>Modelled from the spec: \<open>iplib3/constants/ipv6.py\<close> is not among the sources; 8 hextets.\<close>
  "IPV6_MAX_SEGMENT_COUNT = 8"

definition IPV6_MIN_SEGMENT_VALUE :: int where
  \<comment> \<open>Modelled from the spec: \<open>iplib3/constants/ipv6.py\<close> is not among the sources; hextets range over \<open>[0,0xFFFF]\<close>.\<close>
  "IPV6_MIN_SEGMENT_VALUE = 0"

definition IPV6_MAX_SEGMENT_VALUE :: int where
  \<comment> \<open>Modelled from the spec: \<open>iplib3/constants/ipv6.py\<close> is not among the sources; hextets range over \<open>[0,0xFFFF]\<close>.\<close>
  "IPV6_MAX_SEGMENT_VALUE = 0xFFFF"

definition IPV6_MIN_VALUE :: int where
  \<comment> \<open>Modelled from the spec: \<open>iplib3/constants/ipv6.py\<close> is not among the sources; IPv6 integers range over \<open>[0, 2^128-1]\<close>.\<close>
  "IPV6_MIN_VALUE = 0"

definition IPV6_MAX_VALUE :: int where
  \<comment> \<open>Modelled from the spec: \<open>iplib3/constants/ipv6.py\<close> is not among the sources; IPv6 integers range over \<open>[0, 2^128-1]\<close>.\<close>
  "IPV6_MAX_VALUE = 2 ^ 128 - 1"

named_theorems iplib_consts \<open>the values of the library's constants\<close>

declare PORT_NUMBER_MIN_VALUE_def [iplib_consts]
declare PORT_NUMBER_MAX_VALUE_def [iplib_consts]
declare IPV4_LOCALHOST_def [iplib_consts]
declare IPV6_LOCALHOST_def [iplib_consts]
declare IPV4_MAX_SEGMENT_COUNT_def [iplib_consts]
declare IPV4_MIN_SEGMENT_VALUE_def [iplib_consts]
declare IPV4_MAX_SEGMENT_VALUE_def [iplib_consts]
declare IPV4_MIN_VALUE_def [iplib_consts]
declare IPV4_MAX_VALUE_def [iplib_consts]
declare IPV6_NUMBER_BIT_COUNT_def [iplib_consts]
declare IPV6_SEGMENT_BIT_COUNT_def [iplib_consts]
declare IPV6_MIN_SEGMENT_COUNT_def [iplib_consts]
declare IPV6_MAX_SEGMENT_COUNT_def [iplib_consts]
declare IPV6_MIN_SEGMENT_VALUE_def [iplib_consts]
declare IPV6_MAX_SEGMENT_VALUE_def [iplib_consts]
declare IPV6_MIN_VALUE_def [iplib_consts]
declare IPV6_MAX_VALUE_def [iplib_consts]

section \<open>Ports and the base class\<close>

text \<open>
  \<open>_port_validator\<close>: \<open>None\<close> is a valid port; otherwise the value must be an \<open>int\<close>
  within the bounds.  The comparison is only reached for an \<open>int\<close> (\<open>and\<close> is
  short-circuit), so no operation of the body can raise.
\<close>

definition port_validator :: "pyval \<Rightarrow> bool" where
  "port_validator port_num =
     (case port_num of
        PyNone \<Rightarrow> True
      | PyInt p \<Rightarrow> PORT_NUMBER_MIN_VALUE \<le> p \<and> p \<le> PORT_NUMBER_MAX_VALUE
      | _ \<Rightarrow> False)"

text \<open>
  \<open>class PureAddress\<close>, slots \<open>_num\<close> and \<open>_port\<close>.  The stored port is \<open>None\<close> or an
  integer: both writers (the constructor of \<open>IPAddress\<close> and the setter) store nothing else.
\<close>

record PureAddress =
  num_slot :: int
  port_slot :: "int option"

definition PureAddress_init :: PureAddress where
  "PureAddress_init = \<lparr>num_slot = 0, port_slot = None\<rparr>"

definition num :: "'a PureAddress_scheme \<Rightarrow> int" where
  "num self = max 0 (num_slot self)"

definition port :: "'a PureAddress_scheme \<Rightarrow> int option" where
  "port self =
     (case port_slot self of
        None \<Rightarrow> None
      | Some p \<Rightarrow> Some (min (max PORT_NUMBER_MIN_VALUE p) PORT_NUMBER_MAX_VALUE))"

text \<open>
  The setter of \<open>port\<close>: the exception raised, if any, and the object after the call.
  Both \<open>raise\<close> statements stand before the assignment.
\<close>

definition set_port :: "pyval \<Rightarrow> 'a PureAddress_scheme \<Rightarrow> exn option \<times> 'a PureAddress_scheme" where
  "set_port v self =
     (case v of
        PyNone \<Rightarrow> (None, self\<lparr>port_slot := None\<rparr>)
      | PyInt p \<Rightarrow>
          if \<not> (PORT_NUMBER_MIN_VALUE \<le> p \<and> p \<le> PORT_NUMBER_MAX_VALUE)
          then (Some ValueError, self)
          else (None, self\<lparr>port_slot := Some p\<rparr>)
      | _ \<Rightarrow> (Some TypeError, self))"

section \<open>Strings: the Python operations the library uses\<close>

subsection \<open>\<open>str.split\<close> and \<open>str.join\<close>\<close>

text \<open>
  \<open>s.split(sep)\<close> for a non-empty separator: the pieces between the non-overlapping
  occurrences of \<open>sep\<close>, found from the left.  The result is never empty.  The library
  only splits on the literals \<open>':'\<close>, \<open>'.'\<close>, \<open>'x'\<close>, \<open>'::'\<close> and \<open>']:'\<close>; on the empty
  separator (a \<open>ValueError\<close> in Python, never reached) the model returns the string whole.
\<close>

function split_acc :: "string \<Rightarrow> string \<Rightarrow> string \<Rightarrow> string list" where
  "split_acc sep acc [] = [rev acc]"
| "split_acc sep acc (c # cs) =
     (if sep \<noteq> [] \<and> take (length sep) (c # cs) = sep
      then rev acc # split_acc sep [] (drop (length sep) (c # cs))
      else split_acc sep (c # acc) cs)"
  by pat_completeness auto
termination
  by (relation "measure (\<lambda>(sep, acc, s). length s)") auto

definition split :: "string \<Rightarrow> string \<Rightarrow> string list" where
  "split s sep = split_acc sep [] s"

fun join :: "string \<Rightarrow> string list \<Rightarrow> string" where
  "join sep [] = []"
| "join sep [x] = x"
| "join sep (x # y # ys) = x @ sep @ join sep (y # ys)"

text \<open>Indexing a list with a non-negative literal index: \<open>IndexError\<close> out of range.\<close>

definition getitem :: "'a list \<Rightarrow> nat \<Rightarrow> exn + 'a" where
  "getitem xs i = (if i < length xs then Inr (xs ! i) else Inl IndexError)"

subsection \<open>Digits\<close>

definition digit_char :: "nat \<Rightarrow> char" where
  \<comment> \<open>the digit \<open>d < 36\<close> as Python prints it: \<open>0..9\<close>, then \<open>a..z\<close>\<close>
  "digit_char d = (if d < 10 then char_of (48 + d) else char_of (87 + d))"

definition digit_value :: "char \<Rightarrow> nat option" where
  \<comment> \<open>the value of a character as a digit, as \<open>int\<close> reads it: \<open>0..9\<close>, \<open>a..z\<close>, \<open>A..Z\<close>\<close>
  "digit_value c =
     (let k = (of_char c :: nat) in
      if 48 \<le> k \<and> k \<le> 57 then Some (k - 48)
      else if 97 \<le> k \<and> k \<le> 122 then Some (k - 87)
      else if 65 \<le> k \<and> k \<le> 90 then Some (k - 55)
      else None)"

definition digit_in :: "nat \<Rightarrow> char \<Rightarrow> nat option" where
  "digit_in base c =
     (case digit_value c of None \<Rightarrow> None | Some v \<Rightarrow> if v < base then Some v else None)"

subsection \<open>\<open>str(n)\<close> and \<open>hex(n)\<close> of an integer\<close>

function show_nat :: "nat \<Rightarrow> nat \<Rightarrow> string" where
  "show_nat base n =
     (if base < 2 \<or> n < base then [digit_char n]
      else show_nat base (n div base) @ [digit_char (n mod base)])"
  by pat_completeness auto
termination
  by (relation "measure (\<lambda>(base, n). n)") auto

definition str_int :: "int \<Rightarrow> string" where
  "str_int n = (if n < 0 then CHR ''-'' # show_nat 10 (nat (- n)) else show_nat 10 (nat n))"

definition hex :: "int \<Rightarrow> string" where
  "hex n = (if n < 0 then ''-0x'' @ show_nat 16 (nat (- n)) else ''0x'' @ show_nat 16 (nat n))"

subsection \<open>\<open>int(s)\<close> and \<open>int(s, 16)\<close> of a string\<close>

text \<open>
  \<open>int\<close> skips white space at both ends, reads an optional sign, in base 16 an optional
  prefix \<open>0x\<close> or \<open>0X\<close> (which one underscore may follow), and then digits of the base,
  where single underscores may stand between digits.  Anything else is a \<open>ValueError\<close>.
  No limit on the number of digits is modelled.
\<close>

definition isspace :: "char \<Rightarrow> bool" where
  "isspace c = ((of_char c :: nat) \<in> {9, 10, 11, 12, 13, 32, 133, 160})"

fun digits_value :: "nat \<Rightarrow> nat \<Rightarrow> string \<Rightarrow> nat option" where
  "digits_value base acc [] = Some acc"
| "digits_value base acc (c # cs) =
     (if c = CHR ''_'' then
        (case cs of
           [] \<Rightarrow> None
         | d # ds \<Rightarrow>
             (case digit_in base d of
                None \<Rightarrow> None
              | Some v \<Rightarrow> digits_value base (acc * base + v) ds))
      else
        (case digit_in base c of
           None \<Rightarrow> None
         | Some v \<Rightarrow> digits_value base (acc * base + v) cs))"

definition int_body :: "nat \<Rightarrow> string \<Rightarrow> nat option" where
  \<comment> \<open>the digits proper: they start with a digit\<close>
  "int_body base s =
     (case s of
        [] \<Rightarrow> None
      | c # cs \<Rightarrow>
          (case digit_in base c of
             None \<Rightarrow> None
           | Some v \<Rightarrow> digits_value base v cs))"

definition skip_prefix :: "nat \<Rightarrow> string \<Rightarrow> string" where
  "skip_prefix base s =
     (if base = 16 \<and> (take 2 s = ''0x'' \<or> take 2 s = ''0X'')
      then (if take 1 (drop 2 s) = ''_'' then drop 3 s else drop 2 s)
      else s)"

definition strip :: "string \<Rightarrow> string" where
  "strip s = rev (dropWhile isspace (rev (dropWhile isspace s)))"

definition py_int :: "nat \<Rightarrow> string \<Rightarrow> exn + int" where
  "py_int base s =
     (let t = strip s;
          neg = (take 1 t = ''-'');
          u = (if take 1 t = ''-'' \<or> take 1 t = ''+'' then drop 1 t else t)
      in case int_body base (skip_prefix base u) of
           None \<Rightarrow> Inl ValueError
         | Some v \<Rightarrow> Inr (if neg then - int v else int v))"

text \<open>Evaluating a fallible function on every element, as \<open>map\<close> or a comprehension
  does: the first exception ends the evaluation.\<close>

fun map_exn :: "('a \<Rightarrow> exn + 'b) \<Rightarrow> 'a list \<Rightarrow> exn + 'b list" where
  "map_exn f [] = Inr []"
| "map_exn f (x # xs) =
     (case f x of
        Inl e \<Rightarrow> Inl e
      | Inr y \<Rightarrow> (case map_exn f xs of Inl e \<Rightarrow> Inl e | Inr ys \<Rightarrow> Inr (y # ys)))"

subsection \<open>\<open>str.upper\<close> and \<open>str.zfill\<close>\<close>

definition upper_char :: "char \<Rightarrow> char" where
  \<comment> \<open>on the letters \<open>a..z\<close>; the library only calls \<open>upper\<close> on the digits of \<open>hex\<close>\<close>
  "upper_char c =
     (let k = (of_char c :: nat) in if 97 \<le> k \<and> k \<le> 122 then char_of (k - 32) else c)"

definition upper :: "string \<Rightarrow> string" where
  "upper s = map upper_char s"

definition zfill :: "string \<Rightarrow> nat \<Rightarrow> string" where
  \<comment> \<open>zeros go after a leading sign\<close>
  "zfill s width =
     (if take 1 s = ''-'' \<or> take 1 s = ''+''
      then take 1 s @ replicate (width - length s) CHR ''0'' @ drop 1 s
      else replicate (width - length s) CHR ''0'' @ s)"

text \<open>\<open>max(xs)\<close> and \<open>min(xs)\<close> of a list: \<open>ValueError\<close> on the empty list.\<close>

definition py_max :: "int list \<Rightarrow> exn + int" where
  "py_max xs = (case xs of [] \<Rightarrow> Inl ValueError | x # ys \<Rightarrow> Inr (fold max ys x))"

definition py_min :: "int list \<Rightarrow> exn + int" where
  "py_min xs = (case xs of [] \<Rightarrow> Inl ValueError | x # ys \<Rightarrow> Inr (fold min ys x))"

section \<open>The numeric codec\<close>

subsection \<open>Integer to text\<close>

text \<open>
  \<open>PureAddress._num_to_ipv4\<close>: four times \<open>divmod\<close> by \<open>IPV4_MAX_SEGMENT_VALUE+1\<close>; the
  remainders are appended, the last is the most significant.  Python's \<open>divmod\<close> rounds
  to minus infinity, as \<open>div\<close> and \<open>mod\<close> on \<open>int\<close> do.
\<close>

fun ipv4_segments :: "nat \<Rightarrow> int \<Rightarrow> int list" where
  "ipv4_segments 0 n = []"
| "ipv4_segments (Suc k) n =
     (n mod (IPV4_MAX_SEGMENT_VALUE + 1)) # ipv4_segments k (n div (IPV4_MAX_SEGMENT_VALUE + 1))"

definition num_to_ipv4 :: "int \<Rightarrow> string" where
  "num_to_ipv4 n = join ''.'' (map str_int (rev (ipv4_segments IPV4_MAX_SEGMENT_COUNT n)))"

text \<open>
  \<open>PureAddress._num_to_ipv6\<close>.  A segment is \<open>hex(segment).split('x')[1].upper()\<close>.
\<close>

definition hex_segment :: "int \<Rightarrow> exn + string" where
  "hex_segment segment =
     (case getitem (split (hex segment) ''x'') 1 of
        Inl e \<Rightarrow> Inl e
      | Inr digits \<Rightarrow> Inr (upper digits))"

fun ipv6_segments :: "nat \<Rightarrow> int \<Rightarrow> exn + string list" where
  "ipv6_segments 0 n = Inr []"
| "ipv6_segments (Suc k) n =
     (case hex_segment (n mod (IPV6_MAX_SEGMENT_VALUE + 1)) of
        Inl e \<Rightarrow> Inl e
      | Inr seg \<Rightarrow>
          (case ipv6_segments k (n div (IPV6_MAX_SEGMENT_VALUE + 1)) of
             Inl e \<Rightarrow> Inl e
           | Inr segs \<Rightarrow> Inr (seg # segs)))"

text \<open>The scan for the longest strip of zero segments: the four local variables of the
  loop, and one iteration of its body.\<close>

record scan =
  longest :: nat
  longest_idx :: nat
  current :: nat
  current_idx :: nat

definition scan_step :: "scan \<Rightarrow> nat \<times> string \<Rightarrow> scan" where
  "scan_step st p =
     (let idx = fst p; seg = snd p;
          st1 = (if seg = ''0''
                 then st\<lparr>current := current st + 1,
                         current_idx := (if current st = 0 then idx else current_idx st)\<rparr>
                 else st\<lparr>current := 0\<rparr>)
      in if current st1 > longest st1
         then st1\<lparr>longest := current st1, longest_idx := current_idx st1\<rparr>
         else st1)"

definition zero_scan :: "string list \<Rightarrow> scan" where
  "zero_scan segments =
     foldl scan_step \<lparr>longest = 0, longest_idx = 0, current = 0, current_idx = 0\<rparr>
       (enumerate 0 segments)"

definition remove_zero_run :: "string list \<Rightarrow> string list" where
  "remove_zero_run segments =
     (let st = zero_scan segments; li = longest_idx st; l = longest st
      in (if IPV6_MIN_SEGMENT_COUNT < li \<and> li < IPV6_MAX_SEGMENT_COUNT - 1
          then take li segments else [[]])
         @ [[]]
         @ (if IPV6_MIN_SEGMENT_COUNT < li + l \<and> li + l < IPV6_MAX_SEGMENT_COUNT
            then drop (li + l) segments else [[]]))"

definition num_to_ipv6 :: "int \<Rightarrow> bool \<Rightarrow> bool \<Rightarrow> exn + string" where
  "num_to_ipv6 n shorten remove_zeroes =
     (case ipv6_segments IPV6_MAX_SEGMENT_COUNT n of
        Inl e \<Rightarrow> Inl e
      | Inr segments \<Rightarrow>
          (let segments1 = (if remove_zeroes \<and> ''0'' \<in> set segments
                            then remove_zero_run segments else segments);
               segments2 = (if \<not> shorten
                            then map (\<lambda>seg. if seg \<noteq> []
                                       then zfill seg (IPV6_SEGMENT_BIT_COUNT div IPV6_NUMBER_BIT_COUNT)
                                       else []) segments1
                            else segments1)
           in Inr (join '':'' (rev segments2))))"

subsection \<open>Text to integer\<close>

text \<open>The accumulation \<open>total += num * 2**(idx * bits)\<close> over \<open>enumerate(segments)\<close>.\<close>

definition accumulate :: "nat \<Rightarrow> int list \<Rightarrow> int" where
  "accumulate bits segments =
     foldl (\<lambda>total p. total + snd p * 2 ^ (fst p * bits)) 0 (enumerate 0 segments)"

text \<open>\<open>IPv4._ipv4_to_num\<close>, as a function of the slot \<open>_address\<close>.\<close>

definition ipv4_to_num :: "string \<Rightarrow> exn + int" where
  "ipv4_to_num address =
     (case map_exn (py_int 10) (split address ''.'') of
        Inl e \<Rightarrow> Inl e
      | Inr segments \<Rightarrow> Inr (accumulate 8 (rev segments)))"

text \<open>
  The segments of an IPv6 text.  The codec \<open>IPv6._ipv6_to_num\<close> and the validator
  \<open>_ipv6_validator\<close> hold the same lines: with one zero-skip the two halves are split on
  \<open>':'\<close>, an empty half counts as one segment \<open>'0000'\<close>, and
  \<open>range(IPV6_MAX_SEGMENT_COUNT - total_length)\<close> further ones are put between (none
  when the difference is negative, as the subtraction on \<open>nat\<close> gives); without a
  zero-skip the text is split on \<open>':'\<close>.  \<open>None\<close> stands for the \<open>else\<close> branch, more
  than one zero-skip, where the two functions differ.
\<close>

definition text_segments :: "string \<Rightarrow> string list option" where
  "text_segments address =
     (case split address ''::'' of
        [h0, h1] \<Rightarrow>
          (let left = split h0 '':''; right = split h1 '':'';
               total_length = length left + length right
           in Some ((if h0 \<noteq> [] then left else [''0000''])
                    @ replicate (IPV6_MAX_SEGMENT_COUNT - total_length) ''0000''
                    @ (if h1 \<noteq> [] then right else [''0000''])))
      | [h0] \<Rightarrow> Some (split h0 '':'')
      | _ \<Rightarrow> None)"

definition hextet :: "string \<Rightarrow> exn + int" where
  \<comment> \<open>\<open>int(segment, IPV6_SEGMENT_BIT_COUNT) if segment else 0\<close>\<close>
  "hextet segment = (if segment \<noteq> [] then py_int IPV6_SEGMENT_BIT_COUNT segment else Inr 0)"

text \<open>\<open>IPv6._ipv6_to_num\<close>, as a function of the slot \<open>_address\<close>.\<close>

definition ipv6_to_num :: "string \<Rightarrow> exn + int" where
  "ipv6_to_num address =
     (case text_segments address of
        None \<Rightarrow> Inl ValueError
      | Some segments \<Rightarrow>
          (case map_exn hextet (rev segments) of
             Inl e \<Rightarrow> Inl e
           | Inr processed_segments \<Rightarrow>
               if IPV6_MAX_SEGMENT_COUNT < length processed_segments then Inl ValueError
               else
                 (case py_max processed_segments of
                    Inl e \<Rightarrow> Inl e
                  | Inr highest \<Rightarrow>
                      if IPV6_MAX_SEGMENT_VALUE < highest then Inl ValueError
                      else
                        (case py_min processed_segments of
                           Inl e \<Rightarrow> Inl e
                         | Inr lowest \<Rightarrow>
                             if lowest < IPV6_MIN_SEGMENT_VALUE then Inl ValueError
                             else Inr (accumulate 16 processed_segments)))))"

section \<open>Validators\<close>





section \<open>The address classes\<close>

text \<open>
  An instance of \<open>IPv4\<close> or \<open>IPv6\<close> holds the slots of \<open>PureAddress\<close> and \<open>_address\<close>;
  both classes override \<open>__str__\<close>, so the slots \<open>_ipv4\<close> and \<open>_ipv6\<close> they inherit are
  never read and are left out.  A plain \<open>IPAddress\<close> holds the slots of \<open>PureAddress\<close> and
  the two cached views.  The slot \<open>_submask\<close> (always \<open>None\<close> in this module) is left out.
\<close>

datatype family = IPv4 | IPv6

record FamilyAddress = PureAddress +
  family :: family
  address_slot :: string

record IPAddress = PureAddress +
  ipv4_slot :: "FamilyAddress option"
  ipv6_slot :: "FamilyAddress option"

datatype ipobject = Generic IPAddress | Family FamilyAddress

text \<open>\<open>IPAddress.__init__\<close>: the port is kept if \<open>_port_validator\<close> accepts it, else
  \<open>None\<close> is stored.\<close>

definition stored_port :: "pyval \<Rightarrow> int option" where
  \<comment> \<open>\<open>port_num if _port_validator(port_num) else None\<close>\<close>
  "stored_port port_num =
     (if port_validator port_num then (case port_num of PyInt p \<Rightarrow> Some p | _ \<Rightarrow> None) else None)"

definition IPAddress_init :: "int option \<Rightarrow> pyval \<Rightarrow> IPAddress" where
  "IPAddress_init address port_num =
     \<lparr>num_slot = (case address of Some n \<Rightarrow> n | None \<Rightarrow> 0),
      port_slot = stored_port port_num,
      ipv4_slot = None, ipv6_slot = None\<rparr>"

text \<open>\<open>IPv4.__init__\<close> and \<open>IPv6.__init__\<close>: the port of the text is read only when
  \<open>port_num is None\<close>.\<close>

definition IPv4_init :: "string option \<Rightarrow> pyval \<Rightarrow> exn + FamilyAddress" where
  "IPv4_init address port_num =
     (let address0 = (case address of None \<Rightarrow> num_to_ipv4 IPV4_LOCALHOST | Some a \<Rightarrow> a)
      in case split address0 '':'' of
           [] \<Rightarrow> Inl ValueError
         | a # port_part \<Rightarrow>
             (case (if port_part \<noteq> [] \<and> port_num = PyNone
                    then (case py_int 10 (hd port_part) of
                            Inl e \<Rightarrow> Inl e | Inr p \<Rightarrow> Inr (PyInt p))
                    else Inr port_num) of
                Inl e \<Rightarrow> Inl e
              | Inr port_num1 \<Rightarrow>
                  (let address1 = (if port_part \<noteq> [] then a else address0)
                   in case ipv4_to_num address1 of
                        Inl e \<Rightarrow> Inl e
                      | Inr n \<Rightarrow>
                          Inr \<lparr>num_slot = n, port_slot = stored_port port_num1,
                               family = IPv4, address_slot = address1\<rparr>)))"

definition IPv6_init :: "string option \<Rightarrow> pyval \<Rightarrow> exn + FamilyAddress" where
  "IPv6_init address port_num =
     (case (case address of
              None \<Rightarrow> num_to_ipv6 IPV6_LOCALHOST True False
            | Some a \<Rightarrow> Inr a) of
        Inl e \<Rightarrow> Inl e
      | Inr address0 \<Rightarrow>
          (case split address0 '']:'' of
             [] \<Rightarrow> Inl ValueError
           | a # port_part \<Rightarrow>
               (case (if port_part \<noteq> [] \<and> port_num = PyNone
                      then (case py_int 10 (hd port_part) of
                              Inl e \<Rightarrow> Inl e | Inr p \<Rightarrow> Inr (PyInt p))
                      else Inr port_num) of
                  Inl e \<Rightarrow> Inl e
                | Inr port_num1 \<Rightarrow>
                    (let address1 = (if port_part \<noteq> [] then drop 1 a else address0)
                     in case ipv6_to_num address1 of
                          Inl e \<Rightarrow> Inl e
                        | Inr n \<Rightarrow>
                            Inr \<lparr>num_slot = n, port_slot = stored_port port_num1,
                                 family = IPv6, address_slot = address1\<rparr>))))"

text \<open>
  \<open>IPAddress.__new__\<close>, which every class inherits: a string picks the class by the
  presence of a dot, whatever class was called; then the \<open>__init__\<close> of the class runs.
  (Python runs \<open>__init__\<close> once more with the same arguments when the instance belongs
  to the class called; it stores the same values.)  The arguments of the call are the
  class, an address (\<open>None\<close>, an \<open>int\<close> or a \<open>str\<close>) and the port, all three
  passed explicitly.
\<close>

datatype cls = IPAddress_cls | IPv4_cls | IPv6_cls

datatype address_arg = NoAddress | IntAddress int | StrAddress string

definition new_from_text :: "string \<Rightarrow> pyval \<Rightarrow> exn + FamilyAddress" where
  "new_from_text address port_num =
     (if CHR ''.'' \<in> set address then IPv4_init (Some address) port_num
      else IPv6_init (Some address) port_num)"

definition family_instance :: "exn + FamilyAddress \<Rightarrow> exn + ipobject" where
  "family_instance r = (case r of Inl e \<Rightarrow> Inl e | Inr a \<Rightarrow> Inr (Family a))"

definition new :: "cls \<Rightarrow> address_arg \<Rightarrow> pyval \<Rightarrow> exn + ipobject" where
  "new c address port_num =
     (case address of
        StrAddress s \<Rightarrow> family_instance (new_from_text s port_num)
      | NoAddress \<Rightarrow>
          (case c of
             IPAddress_cls \<Rightarrow> Inr (Generic (IPAddress_init None port_num))
           | IPv4_cls \<Rightarrow> family_instance (IPv4_init None port_num)
           | IPv6_cls \<Rightarrow> family_instance (IPv6_init None port_num))
      | IntAddress n \<Rightarrow>
          (case c of
             IPAddress_cls \<Rightarrow> Inr (Generic (IPAddress_init (Some n) port_num))
           | _ \<Rightarrow> Inl AttributeError))"

subsection \<open>Rendering\<close>

text \<open>\<open>IPv4.__str__\<close> and \<open>IPv6.__str__\<close>.\<close>

definition Family_str :: "FamilyAddress \<Rightarrow> string" where
  "Family_str self =
     (case port self of
        Some p \<Rightarrow>
          (case family self of
             IPv4 \<Rightarrow> address_slot self @ '':'' @ str_int p
           | IPv6 \<Rightarrow> ''['' @ address_slot self @ '']:'' @ str_int p)
      | None \<Rightarrow> address_slot self)"

definition port_value :: "int option \<Rightarrow> pyval" where
  "port_value p = (case p of None \<Rightarrow> PyNone | Some n \<Rightarrow> PyInt n)"

text \<open>The properties \<open>as_ipv4\<close> and \<open>as_ipv6\<close>: a new instance from the text of the number.\<close>

definition as_ipv4 :: "IPAddress \<Rightarrow> exn + FamilyAddress" where
  "as_ipv4 self = new_from_text (num_to_ipv4 (num self)) (port_value (port self))"

definition as_ipv6 :: "IPAddress \<Rightarrow> exn + FamilyAddress" where
  "as_ipv6 self =
     (case num_to_ipv6 (num self) True False of
        Inl e \<Rightarrow> Inl e
      | Inr text \<Rightarrow> new_from_text text (port_value (port self)))"

text \<open>\<open>IPAddress.__str__\<close>: the text, and the instance with its cache filled.\<close>

definition IPAddress_str :: "IPAddress \<Rightarrow> exn + string \<times> IPAddress" where
  "IPAddress_str self =
     (if IPV4_MIN_VALUE \<le> num self \<and> num self \<le> IPV4_MAX_VALUE then
        (case ipv4_slot self of
           Some v \<Rightarrow> Inr (Family_str v, self)
         | None \<Rightarrow>
             (case as_ipv4 self of
                Inl e \<Rightarrow> Inl e
              | Inr v \<Rightarrow> Inr (Family_str v, self\<lparr>ipv4_slot := Some v\<rparr>)))
      else if IPV4_MAX_VALUE < num self \<and> num self \<le> IPV6_MAX_VALUE then
        (case ipv6_slot self of
           Some v \<Rightarrow> Inr (Family_str v, self)
         | None \<Rightarrow>
             (case as_ipv6 self of
                Inl e \<Rightarrow> Inl e
              | Inr v \<Rightarrow> Inr (Family_str v, self\<lparr>ipv6_slot := Some v\<rparr>)))
      else Inl ValueError)"

subsection \<open>Equality\<close>

text \<open>
  The other operand of \<open>==\<close> is an address or a plain string.  \<open>PureAddress.__eq__\<close>
  compares the renderings first; filling a cache is the one effect of rendering and does
  not show in the result.
\<close>

datatype operand = Address ipobject | Text string

definition instance_str :: "ipobject \<Rightarrow> exn + string" where
  "instance_str self =
     (case self of
        Family a \<Rightarrow> Inr (Family_str a)
      | Generic a \<Rightarrow> (case IPAddress_str a of Inl e \<Rightarrow> Inl e | Inr r \<Rightarrow> Inr (fst r)))"

definition operand_str :: "operand \<Rightarrow> exn + string" where
  "operand_str other = (case other of Address a \<Rightarrow> instance_str a | Text s \<Rightarrow> Inr s)"

definition instance_num :: "ipobject \<Rightarrow> int" where
  "instance_num self = (case self of Family a \<Rightarrow> num a | Generic a \<Rightarrow> num a)"

definition instance_port :: "ipobject \<Rightarrow> int option" where
  "instance_port self = (case self of Family a \<Rightarrow> port a | Generic a \<Rightarrow> port a)"

definition eq :: "ipobject \<Rightarrow> operand \<Rightarrow> exn + bool" where
  "eq self other =
     (case instance_str self of
        Inl e \<Rightarrow> Inl e
      | Inr s1 \<Rightarrow>
          (case operand_str other of
             Inl e \<Rightarrow> Inl e
           | Inr s2 \<Rightarrow>
               if s1 = s2 then Inr True
               else (case other of
                       Address b \<Rightarrow>
                         Inr (instance_num self = instance_num b \<and>
                              instance_port self = instance_port b)
                     | Text _ \<Rightarrow> Inr False)))"

section \<open>The port setter and the constructor of a generic address\<close>


lemma set_port_None: "set_port PyNone self = (None, self\<lparr>port_slot := None\<rparr>)"
  by (simp add: set_port_def)

lemma set_port_out_of_range:
  "p < 0 \<or> 65535 < p \<Longrightarrow> set_port (PyInt p) self = (Some ValueError, self)"
  by (auto simp: set_port_def iplib_consts)

lemma set_port_in_range:
  "0 \<le> p \<Longrightarrow> p \<le> 65535 \<Longrightarrow> set_port (PyInt p) self = (None, self\<lparr>port_slot := Some p\<rparr>)"
  by (simp add: set_port_def iplib_consts)

lemma set_port_wrong_type:
  "set_port (PyStr s) self = (Some TypeError, self)"
  "set_port PyOther self = (Some TypeError, self)"
  by (simp_all add: set_port_def)

text \<open>
  C9.  The setter of \<open>port\<close>: 65536 and -1 raise \<open>ValueError\<close>, as every integer outside
  \<open>[0,65535]\<close> does; a value that is neither \<open>None\<close> nor an integer raises \<open>TypeError\<close>;
  \<open>None\<close> clears the port, which then reads \<open>None\<close> (not 0); and whenever the setter
  raises, the object is as it was before the call.
\<close>

theorem C9_port_setter:
  "set_port (PyInt 65536) self = (Some ValueError, self)
   \<and> set_port (PyInt (- 1)) self = (Some ValueError, self)
   \<and> (\<forall>p. p < 0 \<or> 65535 < p \<longrightarrow> set_port (PyInt p) self = (Some ValueError, self))
   \<and> (\<forall>s. set_port (PyStr s) self = (Some TypeError, self))
   \<and> set_port PyOther self = (Some TypeError, self)
   \<and> fst (set_port PyNone self) = None
   \<and> port (snd (set_port PyNone self)) = None
   \<and> (\<forall>v e. fst (set_port v self) = Some e \<longrightarrow> snd (set_port v self) = self)"
proof -
  have unchanged: "snd (set_port v self) = self" if "fst (set_port v self) = Some e" for v e
    using that by (cases v) (auto simp: set_port_def split: if_splits)
  show ?thesis
    using unchanged
    by (simp add: set_port_out_of_range set_port_wrong_type set_port_None port_def)
qed

theorem C9_port_setter_witness:
  "set_port (PyInt 70000) \<lparr>num_slot = 1, port_slot = Some 80\<rparr>
     = (Some ValueError, \<lparr>num_slot = 1, port_slot = Some 80\<rparr>)
   \<and> port (snd (set_port (PyInt 70000) \<lparr>num_slot = 1, port_slot = Some 80\<rparr>)) = Some 80
   \<and> port (snd (set_port PyNone \<lparr>num_slot = 1, port_slot = Some 80\<rparr>)) = None"
proof -
  have h: "(70000::int) < 0 \<or> 65535 < (70000::int)" by simp
  show ?thesis
    using h C9_port_setter [of "\<lparr>num_slot = 1, port_slot = Some 80\<rparr>"]
    by (simp add: port_def iplib_consts)
qed

text \<open>
  C10.  A generic address built from an integer and an invalid port (a value of the
  wrong type, or an integer outside \<open>[0,65535]\<close>) is built without an exception, stores
  \<open>None\<close> as its port and reads \<open>None\<close>; the setter raises on the same value.
\<close>

theorem C10_constructor_drops_invalid_port:
  assumes "p \<noteq> PyNone" and "\<forall>k. p = PyInt k \<longrightarrow> k < 0 \<or> 65535 < k"
  shows "\<exists>a. new IPAddress_cls (IntAddress n) p = Inr (Generic a)
            \<and> num_slot a = n \<and> port_slot a = None \<and> port a = None
            \<and> (\<exists>e. fst (set_port p a) = Some e)"
  using assms
  by (cases p)
     (auto simp: new_def IPAddress_init_def stored_port_def port_validator_def port_def
                 set_port_def iplib_consts)

theorem C10_constructor_drops_invalid_port_witness:
  "\<exists>a. new IPAddress_cls (IntAddress 2130706433) (PyInt 65536) = Inr (Generic a)
       \<and> num_slot a = 2130706433 \<and> port_slot a = None \<and> port a = None
       \<and> (\<exists>e. fst (set_port (PyInt 65536) a) = Some e)"
proof -
  have h1: "PyInt 65536 \<noteq> PyNone" by simp
  have h2: "\<forall>k. PyInt 65536 = PyInt k \<longrightarrow> k < 0 \<or> 65535 < k" by simp
  show ?thesis
    using C10_constructor_drops_invalid_port [OF h1 h2, of 2130706433] .
qed

section \<open>The validators never raise\<close>





















section \<open>Splitting and joining\<close>

lemma split_acc_no_sep: "c \<notin> set s \<Longrightarrow> split_acc [c] acc s = [rev acc @ s]"
  by (induction s arbitrary: acc) auto

lemma split_no_sep: "c \<notin> set s \<Longrightarrow> split s [c] = [s]"
  by (simp add: split_def split_acc_no_sep)

lemma split_acc_at_sep:
  "c \<notin> set xs \<Longrightarrow> split_acc [c] acc (xs @ c # ys) = (rev acc @ xs) # split_acc [c] [] ys"
  by (induction xs arbitrary: acc) auto

lemma split_at_sep: "c \<notin> set xs \<Longrightarrow> split (xs @ c # ys) [c] = xs # split ys [c]"
  by (simp add: split_def split_acc_at_sep)

lemma split_join_aux:
  "sep = [c] \<Longrightarrow> xs \<noteq> [] \<Longrightarrow> \<forall>x\<in>set xs. c \<notin> set x \<Longrightarrow> split (join sep xs) sep = xs"
proof (induction sep xs rule: join.induct)
  case (1 sep)
  then show ?case by simp
next
  case (2 sep x)
  then show ?case by (simp add: split_no_sep)
next
  case (3 sep x y ys)
  then show ?case by (simp add: split_at_sep)
qed

lemma split_join:
  "xs \<noteq> [] \<Longrightarrow> \<forall>x\<in>set xs. c \<notin> set x \<Longrightarrow> split (join [c] xs) [c] = xs"
  by (rule split_join_aux) simp_all



section \<open>What \<open>int\<close> reads\<close>










section \<open>Strict and lenient validation of IPv4 text\<close>








end
